theory Spec2Isabelle
  imports Main
begin

section \<open>JavaScript values used by the inventory route\<close>

text \<open>
  The route handler of \<^verbatim>\<open>src/unnamed/part_000\<close> is a Next.js \<^verbatim>\<open>GET\<close> handler written in
  TypeScript. Its strings are modelled as \<^typ>\<open>string\<close> (code units below 256), its numbers
  as integers extended by the three non-finite values a JavaScript number can take. A value
  that may be absent (\<^verbatim>\<open>undefined\<close> or \<^verbatim>\<open>null\<close>) is an \<^typ>\<open>'a option\<close>. The handler's
  writes to the console are not modelled.
\<close>

datatype number = Num int | NaN | PosInfinity | NegInfinity

text \<open>Truthiness (\<^verbatim>\<open>!!x\<close>) of an optional string and of an optional number.\<close>

fun truthy_str :: "string option \<Rightarrow> bool" where
  "truthy_str None = False"
| "truthy_str (Some s) = (s \<noteq> [])"

fun truthy_num :: "int option \<Rightarrow> bool" where
  "truthy_num None = False"
| "truthy_num (Some n) = (n \<noteq> 0)"

subsection \<open>\<^verbatim>\<open>parseInt\<close> with the radix left out\<close>

text \<open>
  ECMAScript \<^verbatim>\<open>parseInt(string)\<close>: leading white space is dropped, one sign is read, a
  \<^verbatim>\<open>0x\<close>/\<^verbatim>\<open>0X\<close> prefix selects radix 16 (radix 10 otherwise), and the longest prefix of
  digits of that radix is the value; with no digit the result is \<^verbatim>\<open>NaN\<close>.
\<close>

definition isWhiteSpace :: "char \<Rightarrow> bool" where
  "isWhiteSpace c = (of_char c \<in> {9, 10, 11, 12, 13, 32, 160 :: nat})"

definition digit_value :: "char \<Rightarrow> nat" where
  "digit_value c =
     (let n = of_char c :: nat in
      if 48 \<le> n \<and> n \<le> 57 then n - 48
      else if 97 \<le> n \<and> n \<le> 122 then n - 87
      else if 65 \<le> n \<and> n \<le> 90 then n - 55
      else 36)"

definition is_radix_digit :: "nat \<Rightarrow> char \<Rightarrow> bool" where
  "is_radix_digit R c = (digit_value c < R)"

definition digits_value :: "nat \<Rightarrow> string \<Rightarrow> nat" where
  "digits_value R Z = foldl (\<lambda>acc c. acc * R + digit_value c) 0 Z"

definition strip_sign :: "string \<Rightarrow> int \<times> string" where
  "strip_sign S =
     (case S of
        [] \<Rightarrow> (1, S)
      | c # r \<Rightarrow> if c = CHR ''-'' then (- 1, r) else if c = CHR ''+'' then (1, r) else (1, S))"

definition strip_prefix :: "string \<Rightarrow> nat \<times> string" where
  "strip_prefix S =
     (case S of
        a # b # r \<Rightarrow>
          if a = CHR ''0'' \<and> (b = CHR ''x'' \<or> b = CHR ''X'') then (16, r) else (10, S)
      | _ \<Rightarrow> (10, S))"

definition parseInt :: "string \<Rightarrow> number" where
  "parseInt s =
     (let (sign, S1) = strip_sign (dropWhile isWhiteSpace s);
          (R, S2) = strip_prefix S1;
          Z = takeWhile (is_radix_digit R) S2
      in if Z = [] then NaN else Num (sign * int (digits_value R Z)))"

definition isNaN :: "number \<Rightarrow> bool" where
  "isNaN x = (x = NaN)"

subsection \<open>\<^verbatim>\<open>Number.prototype.toString\<close>\<close>

definition digit_char :: "nat \<Rightarrow> char" where
  "digit_char d = char_of (48 + d)"

fun nat_digits :: "nat \<Rightarrow> string" where
  "nat_digits n = (if n < 10 then [digit_char n] else nat_digits (n div 10) @ [digit_char (n mod 10)])"

declare nat_digits.simps [simp del]

definition int_toString :: "int \<Rightarrow> string" where
  "int_toString n = (if n < 0 then CHR ''-'' # nat_digits (nat (- n)) else nat_digits (nat n))"

fun number_toString :: "number \<Rightarrow> string" where
  "number_toString (Num n) = int_toString n"
| "number_toString NaN = ''NaN''"
| "number_toString PosInfinity = ''Infinity''"
| "number_toString NegInfinity = ''-Infinity''"

section \<open>Identifier resolution\<close>

text \<open>\<^verbatim>\<open>getContextId\<close>: Steam Community items use context 6, game items context 2.\<close>

definition getContextId :: "string option \<Rightarrow> string" where
  "getContextId appId =
     (if \<not> truthy_str appId \<or> appId = Some ''753'' then ''6'' else ''2'')"

text \<open>\<^verbatim>\<open>getInventoryAppId\<close>: the app id the inventory query is made for.\<close>

definition getInventoryAppId :: "string option \<Rightarrow> string" where
  "getInventoryAppId appId =
     (case appId of
        None \<Rightarrow> ''753''
      | Some a \<Rightarrow>
          if a = [] then ''753''
          else if a = ''730'' \<or> a = ''570'' \<or> a = ''440'' then a
          else if isNaN (parseInt a) then ''753''
          else a)"

text \<open>The pair the handler computes at lines 125 and 126, both from the raw parameter.\<close>

definition resolve :: "string option \<Rightarrow> string \<times> string" where
  "resolve appId = (getInventoryAppId appId, getContextId appId)"

section \<open>Data model\<close>

text \<open>
  The two raw record streams of the upstream page and the merged item. The upstream body is
  untyped JSON, so every field may be absent: an absent field (\<^verbatim>\<open>undefined\<close> or \<^verbatim>\<open>null\<close>) is
  \<^const>\<open>None\<close>, a present one has the type its interface declares, a \<^verbatim>\<open>number\<close> being an
  integer.
\<close>

datatype DescriptionLine =
  DescriptionLine (line_type: string) (line_value: string) (line_color: "string option")

datatype Action = Action (action_name: string) (action_link: string)

datatype Tag =
  Tag (category: string) (internal_name: string) (localized_category_name: string)
    (localized_tag_name: string) (tag_color: "string option")

record SteamAsset =
  asset_appid :: "int option"
  asset_contextid :: "string option"
  asset_assetid :: "string option"
  asset_classid :: "string option"
  asset_instanceid :: "string option"
  asset_amount :: "string option"

record SteamDescription =
  appid :: "int option"
  classid :: "string option"
  instanceid :: "string option"
  name :: "string option"
  market_hash_name :: "string option"
  market_name :: "string option"
  type :: "string option"
  tradable :: "int option"
  marketable :: "int option"
  commodity :: "int option"
  market_tradable_restriction :: "int option"
  descriptions :: "DescriptionLine list option"
  actions :: "Action list option"
  name_color :: "string option"
  background_color :: "string option"
  icon_url :: "string option"
  icon_url_large :: "string option"
  tags :: "Tag list option"

text \<open>
  \<^verbatim>\<open>Partial<SteamInventoryItem>\<close>: the description's fields (the object spread) and the three
  fields taken from the asset.
\<close>

record SteamInventoryItem = SteamDescription +
  assetid :: "string option"
  amount :: "string option"
  contextid :: "string option"

text \<open>A JSON scalar, for the two fields of the page the handler passes through unread.\<close>

datatype json = JNull | JBool bool | JNum int | JStr string

record InventoryData =
  inv_error :: "string option"
  inv_assets :: "SteamAsset list option"
  inv_descriptions :: "SteamDescription list option"
  total_inventory_count :: "int option"
  more_items :: "json option"
  last_assetid :: "json option"

section \<open>Validation and merging\<close>

text \<open>\<^verbatim>\<open>isValidInventoryItem\<close>, the type guard, conjunct by conjunct.\<close>

definition isValidInventoryItem :: "SteamInventoryItem \<Rightarrow> bool" where
  "isValidInventoryItem item =
     (truthy_num (appid item) \<and>
      truthy_str (contextid item) \<and>
      truthy_str (assetid item) \<and>
      truthy_str (classid item) \<and>
      truthy_str (instanceid item) \<and>
      truthy_str (amount item) \<and>
      truthy_str (name item) \<and>
      truthy_str (market_hash_name item) \<and>
      truthy_str (market_name item) \<and>
      truthy_str (type item) \<and>
      tradable item \<noteq> None \<and>
      marketable item \<noteq> None \<and>
      commodity item \<noteq> None \<and>
      market_tradable_restriction item \<noteq> None \<and>
      descriptions item \<noteq> None \<and>
      tags item \<noteq> None \<and>
      truthy_str (icon_url item))"

subsection \<open>\<^verbatim>\<open>encodeURIComponent\<close>\<close>

text \<open>
  Unreserved characters are kept, every other code unit is written as the percent-encoded
  bytes of its UTF-8 form (one byte below 128, two bytes from 128 to 255). An absent
  argument is converted to the string \<^verbatim>\<open>undefined\<close> first.
\<close>

definition uri_unreserved :: "char \<Rightarrow> bool" where
  "uri_unreserved c =
     (let n = of_char c :: nat in
      (48 \<le> n \<and> n \<le> 57) \<or> (65 \<le> n \<and> n \<le> 90) \<or> (97 \<le> n \<and> n \<le> 122) \<or>
      c \<in> set ''-_.!~*'()'')"

definition hex_char :: "nat \<Rightarrow> char" where
  "hex_char d = (if d < 10 then char_of (48 + d) else char_of (55 + d))"

definition percent :: "nat \<Rightarrow> string" where
  "percent b = [CHR ''%'', hex_char (b div 16), hex_char (b mod 16)]"

definition encode_unit :: "char \<Rightarrow> string" where
  "encode_unit c =
     (let n = of_char c :: nat in
      if uri_unreserved c then [c]
      else if n < 128 then percent n
      else percent (192 + n div 64) @ percent (128 + n mod 64))"

definition encodeURIComponent :: "string option \<Rightarrow> string" where
  "encodeURIComponent x =
     (case x of None \<Rightarrow> ''undefined'' | Some s \<Rightarrow> concat (map encode_unit s))"

subsection \<open>Merging an asset with its description\<close>

definition matches :: "SteamAsset \<Rightarrow> SteamDescription \<Rightarrow> bool" where
  "matches asset desc =
     (classid desc = asset_classid asset \<and> instanceid desc = asset_instanceid asset)"

definition merge :: "SteamAsset \<Rightarrow> SteamDescription \<Rightarrow> SteamInventoryItem" where
  "merge asset description =
     \<lparr> appid = appid description,
       classid = classid description,
       instanceid = instanceid description,
       name = name description,
       market_hash_name = Some (encodeURIComponent (market_hash_name description)),
       market_name = market_name description,
       type = type description,
       tradable = tradable description,
       marketable = marketable description,
       commodity = commodity description,
       market_tradable_restriction = market_tradable_restriction description,
       descriptions = descriptions description,
       actions = actions description,
       name_color = name_color description,
       background_color = background_color description,
       icon_url = icon_url description,
       icon_url_large = icon_url_large description,
       tags = tags description,
       assetid = asset_assetid asset,
       amount = asset_amount asset,
       contextid = asset_contextid asset \<rparr>"

text \<open>The callback of \<^verbatim>\<open>assets.map\<close>: \<^const>\<open>None\<close> is the \<^verbatim>\<open>null\<close> it returns.\<close>

definition mergeAsset :: "SteamDescription list \<Rightarrow> SteamAsset \<Rightarrow> SteamInventoryItem option" where
  "mergeAsset descs asset =
     (case find (matches asset) descs of
        None \<Rightarrow> None
      | Some description \<Rightarrow>
          (let item = merge asset description
           in if isValidInventoryItem item then Some item else None))"

text \<open>\<^verbatim>\<open>assets.map(...).filter(item => item !== null)\<close>.\<close>

definition mergeItems :: "SteamAsset list \<Rightarrow> SteamDescription list \<Rightarrow> SteamInventoryItem list" where
  "mergeItems assets descs = List.map_filter (mergeAsset descs) assets"

section \<open>Filtering and sorting\<close>

text \<open>
  The filter and the comparator read \<^verbatim>\<open>item.appid\<close> and \<^verbatim>\<open>a.name\<close> of items the type guard
  admitted, where both are present. On an absent field, where JavaScript raises a
  \<^verbatim>\<open>TypeError\<close>, the two readers below return the empty string; the handler never reaches
  that case, since it only filters and sorts items of \<^const>\<open>mergeItems\<close>.
\<close>

definition appid_toString :: "SteamInventoryItem \<Rightarrow> string" where
  "appid_toString item = (case appid item of None \<Rightarrow> [] | Some n \<Rightarrow> int_toString n)"

definition name_of :: "SteamInventoryItem \<Rightarrow> string" where
  "name_of item = (case name item of None \<Rightarrow> [] | Some s \<Rightarrow> s)"

definition color_of :: "SteamInventoryItem \<Rightarrow> string" where
  "color_of item = (case name_color item of None \<Rightarrow> [] | Some s \<Rightarrow> s)"

text \<open>\<^verbatim>\<open>appId ? items.filter(item => item.appid.toString() === appId) : items\<close>.\<close>

definition filterItems :: "string option \<Rightarrow> SteamInventoryItem list \<Rightarrow> SteamInventoryItem list" where
  "filterItems appId its =
     (case appId of
        None \<Rightarrow> its
      | Some a \<Rightarrow> if a = [] then its else filter (\<lambda>item. appid_toString item = a) its)"

text \<open>
  The comparator passed to \<^verbatim>\<open>sort\<close>. \<^verbatim>\<open>String.prototype.localeCompare\<close> is the platform's
  collation and is a parameter \<open>lc\<close> of the model: a negative, zero or positive integer.
\<close>

definition compareItems ::
  "(string \<Rightarrow> string \<Rightarrow> int) \<Rightarrow> SteamInventoryItem \<Rightarrow> SteamInventoryItem \<Rightarrow> int" where
  "compareItems lc a b =
     (if truthy_str (name_color a) \<and> truthy_str (name_color b) then lc (color_of b) (color_of a)
      else if truthy_str (name_color a) then - 1
      else if truthy_str (name_color b) then 1
      else lc (name_of a) (name_of b))"

text \<open>
  \<^verbatim>\<open>Array.prototype.sort\<close> is a stable sort (ECMAScript 2019). It is modelled as the stable
  insertion sort: an element goes in front of the first element it does not rank after.
  For a comparator that is a total preorder, the sorted and stable arrangement of a list is
  unique, so the choice of the algorithm does not show; for any other comparator the order
  ECMAScript produces is implementation-defined, and only the elements of the result are
  meaningful.
\<close>

fun insert_by :: "('a \<Rightarrow> 'a \<Rightarrow> int) \<Rightarrow> 'a \<Rightarrow> 'a list \<Rightarrow> 'a list" where
  "insert_by c x [] = [x]"
| "insert_by c x (y # ys) = (if c x y \<le> 0 then x # y # ys else y # insert_by c x ys)"

definition sort_by :: "('a \<Rightarrow> 'a \<Rightarrow> int) \<Rightarrow> 'a list \<Rightarrow> 'a list" where
  "sort_by c xs = foldr (insert_by c) xs []"

definition sortItems ::
  "(string \<Rightarrow> string \<Rightarrow> int) \<Rightarrow> SteamInventoryItem list \<Rightarrow> SteamInventoryItem list" where
  "sortItems lc its = sort_by (compareItems lc) its"

text \<open>
  Code-unit lexicographic comparison, the reading of \<^verbatim>\<open>localeCompare\<close> the specification
  takes; it is one admissible value of the parameter \<open>lc\<close>.
\<close>

fun lex_compare :: "string \<Rightarrow> string \<Rightarrow> int" where
  "lex_compare [] [] = 0"
| "lex_compare [] (y # ys) = - 1"
| "lex_compare (x # xs) [] = 1"
| "lex_compare (x # xs) (y # ys) =
     (if (of_char x :: nat) < of_char y then - 1
      else if (of_char y :: nat) < of_char x then 1
      else lex_compare xs ys)"

text \<open>What the sort needs of a collation: a total preorder read off the sign.\<close>

definition consistent :: "('a \<Rightarrow> 'a \<Rightarrow> int) \<Rightarrow> bool" where
  "consistent c =
     ((\<forall>x. c x x = 0) \<and>
      (\<forall>x y. (c x y < 0) = (0 < c y x)) \<and>
      (\<forall>x y z. c x y \<le> 0 \<longrightarrow> c y z \<le> 0 \<longrightarrow> c x z \<le> 0))"

section \<open>The request, the outbound call and the response\<close>

record Request =
  cookies :: "(string \<times> string) list"
  searchParams :: "(string \<times> string) list"

text \<open>
  The inventory URL, kept as the three path parameters of the template string and the list
  of query parameters appended to it with \<^verbatim>\<open>searchParams.append\<close>, in order. The parsing
  of the template string by the \<^verbatim>\<open>URL\<close> constructor is not modelled.
\<close>

record InventoryUrl =
  path_steamId :: string
  path_appId :: string
  path_contextId :: string
  query :: "(string \<times> string) list"

record FetchCall =
  url :: InventoryUrl
  cookie_header :: string
  revalidate :: nat
  cache_tags :: "string list"

datatype UpstreamBody = InvalidJson string | JsonBody InventoryData

datatype FetchResult =
  FetchRejected string
| Fetched (resp_status: int) (resp_text: string) (resp_json: UpstreamBody)

record UserData =
  steamid :: "string option"

text \<open>
  The environment of the handler: the configuration, the collaborators that are not part of
  the route (\<^verbatim>\<open>JSON.parse\<close> on the cookie, \<^verbatim>\<open>validateSteamSession\<close>, the upstream service
  behind \<^verbatim>\<open>fetch\<close>) and the collation. \<^verbatim>\<open>JSON.parse\<close> returns \<^const>\<open>Inl\<close> with the message
  of the \<^verbatim>\<open>SyntaxError\<close> it raises.
\<close>

record Env =
  isDev :: bool
  communityToken :: string
  JSON_parse :: "string \<Rightarrow> string + UserData"
  validateSteamSession :: "UserData \<Rightarrow> bool"
  fetch :: "FetchCall \<Rightarrow> FetchResult"
  localeCompare :: "string \<Rightarrow> string \<Rightarrow> int"

record SuccessEnvelope =
  s_success :: bool
  s_items :: "SteamInventoryItem list"
  s_total_count :: int
  s_page :: number
  s_limit :: number
  s_total_pages :: number
  s_has_more :: "json option"
  s_next_start_asset_id :: "json option"
  s_app_id :: string
  s_context_id :: string

record FailureEnvelope =
  f_success :: bool
  f_error :: string
  f_details :: "string option"
  f_items :: "SteamInventoryItem list"
  f_total_count :: int

text \<open>
  A response body. A field of an envelope that is \<^const>\<open>None\<close> is \<^verbatim>\<open>undefined\<close>, which
  \<^verbatim>\<open>NextResponse.json\<close> leaves out of the serialised object. The \<open>headers\<close> of a response
  are the headers the handler sets itself, in the order it sets them.
\<close>

datatype Body =
  ErrorBody string
| Failure FailureEnvelope
| Success SuccessEnvelope

record Response =
  status :: int
  body :: Body
  headers :: "(string \<times> string) list"

section \<open>The handler\<close>

text \<open>\<^verbatim>\<open>x || d\<close> on an optional string.\<close>

definition or_default :: "string option \<Rightarrow> string \<Rightarrow> string" where
  "or_default x d = (case x of None \<Rightarrow> d | Some s \<Rightarrow> if s = [] then d else s)"

text \<open>\<^verbatim>\<open>Math.min(x, m)\<close>, \<^verbatim>\<open>x > m\<close> and \<^verbatim>\<open>Math.ceil(t / l)\<close> for integers \<open>m\<close> and \<open>t\<close>.\<close>

fun math_min :: "number \<Rightarrow> int \<Rightarrow> number" where
  "math_min (Num n) m = Num (min n m)"
| "math_min NaN m = NaN"
| "math_min PosInfinity m = Num m"
| "math_min NegInfinity m = NegInfinity"

fun greater_than :: "number \<Rightarrow> int \<Rightarrow> bool" where
  "greater_than (Num n) m = (m < n)"
| "greater_than NaN m = False"
| "greater_than PosInfinity m = True"
| "greater_than NegInfinity m = False"

fun ceil_div :: "int \<Rightarrow> number \<Rightarrow> number" where
  "ceil_div t (Num l) =
     (if l = 0 then (if t = 0 then NaN else if 0 < t then PosInfinity else NegInfinity)
      else Num (- ((- t) div l)))"
| "ceil_div t NaN = NaN"
| "ceil_div t PosInfinity = Num 0"
| "ceil_div t NegInfinity = Num 0"

text \<open>\<^verbatim>\<open>NextResponse.json(body, { status })\<close> and \<^verbatim>\<open>response.headers.set\<close>.\<close>

definition json_response :: "Body \<Rightarrow> int \<Rightarrow> Response" where
  "json_response b st = \<lparr> status = st, body = b, headers = [] \<rparr>"

definition set_header :: "string \<Rightarrow> string \<Rightarrow> Response \<Rightarrow> Response" where
  "set_header k v r = r \<lparr> headers := filter (\<lambda>h. fst h \<noteq> k) (headers r) @ [(k, v)] \<rparr>"

text \<open>\<^verbatim>\<open>searchParams.get("steamid") || userData.steamid\<close>.\<close>

definition steamId_of :: "Request \<Rightarrow> UserData \<Rightarrow> string option" where
  "steamId_of request userData =
     (let p = map_of (searchParams request) ''steamid''
      in if truthy_str p then p else steamid userData)"

text \<open>Lines 128 to 139: the URL and its query parameters.\<close>

definition inventoryUrl_of ::
  "Request \<Rightarrow> string \<Rightarrow> string \<Rightarrow> string \<Rightarrow> number \<Rightarrow> number \<Rightarrow> InventoryUrl" where
  "inventoryUrl_of request steamId inventoryAppId contextId limit page =
     \<lparr> path_steamId = steamId,
       path_appId = inventoryAppId,
       path_contextId = contextId,
       query =
         [(''l'', ''english''), (''count'', number_toString limit)] @
         (if greater_than page 1 then
            (case map_of (searchParams request) ''start_assetid'' of
               None \<Rightarrow> []
             | Some startAssetId \<Rightarrow>
                 if startAssetId = [] then [] else [(''start_assetid'', startAssetId)])
          else []) \<rparr>"

text \<open>
  Lines 146 to 167: the classification of the upstream answer. \<^const>\<open>Inl\<close> carries the
  message of the error the handler raises (or of the one \<^verbatim>\<open>fetch\<close> or \<^verbatim>\<open>json()\<close> raised).
\<close>

definition classify :: "FetchResult \<Rightarrow> string + InventoryData" where
  "classify r =
     (case r of
        FetchRejected msg \<Rightarrow> Inl msg
      | Fetched st txt js \<Rightarrow>
          if \<not> (200 \<le> st \<and> st \<le> 299)
          then Inl (''Failed to fetch inventory: '' @ int_toString st @ '' - '' @ txt)
          else (case js of
                  InvalidJson msg \<Rightarrow> Inl msg
                | JsonBody inventoryData \<Rightarrow>
                    (case inv_error inventoryData of
                       None \<Rightarrow> Inr inventoryData
                     | Some e \<Rightarrow>
                         if e = [] then Inr inventoryData
                         else Inl (''Steam API error: '' @ e))))"

text \<open>Lines 169 to 239: reconciliation, filter, sort and the success envelope.\<close>

definition or_empty :: "'a list option \<Rightarrow> 'a list" where
  "or_empty x = (case x of None \<Rightarrow> [] | Some xs \<Rightarrow> xs)"

definition or_zero :: "int option \<Rightarrow> int" where
  "or_zero x = (case x of None \<Rightarrow> 0 | Some n \<Rightarrow> n)"

definition filteredItems ::
  "Env \<Rightarrow> string option \<Rightarrow> InventoryData \<Rightarrow> SteamInventoryItem list" where
  "filteredItems env appId inventoryData =
     sortItems (localeCompare env)
       (filterItems appId
          (mergeItems (or_empty (inv_assets inventoryData))
             (or_empty (inv_descriptions inventoryData))))"

definition cache_tag_header :: "string \<Rightarrow> string option \<Rightarrow> string" where
  "cache_tag_header steamId appId =
     ''user-'' @ steamId @ ''-inventory'' @
     (case appId of
        None \<Rightarrow> []
      | Some a \<Rightarrow> if a = [] then [] else '',app-'' @ a @ ''-inventory'')"

definition successResponse ::
  "Env \<Rightarrow> string option \<Rightarrow> string \<Rightarrow> number \<Rightarrow> number \<Rightarrow> InventoryData \<Rightarrow> Response" where
  "successResponse env appId steamId page limit inventoryData =
     (let total = or_zero (total_inventory_count inventoryData) in
      set_header ''x-cache-tags'' (cache_tag_header steamId appId)
        (set_header ''Cache-Control'' ''s-maxage=300, stale-while-revalidate''
           (json_response
              (Success
                 \<lparr> s_success = True,
                   s_items = filteredItems env appId inventoryData,
                   s_total_count = total,
                   s_page = page,
                   s_limit = limit,
                   s_total_pages = ceil_div total limit,
                   s_has_more = more_items inventoryData,
                   s_next_start_asset_id = last_assetid inventoryData,
                   s_app_id = getInventoryAppId appId,
                   s_context_id = getContextId appId \<rparr>)
              200)))"

text \<open>Lines 240 to 257: the \<^verbatim>\<open>catch\<close> block.\<close>

definition errorResponse :: "Env \<Rightarrow> string \<Rightarrow> Response" where
  "errorResponse env message =
     set_header ''Cache-Control'' ''no-store''
       (json_response
          (Failure
             \<lparr> f_success = False,
               f_error = ''Failed to fetch inventory'',
               f_details = (if isDev env then Some message else None),
               f_items = [],
               f_total_count = 0 \<rparr>)
          500)"

text \<open>
  The \<^verbatim>\<open>try\<close> block. The result is the response returned or the message of the error
  raised, together with the calls made to the upstream service, in order.
\<close>

definition appId_of :: "Request \<Rightarrow> string option" where
  "appId_of request = map_of (searchParams request) ''appid''"

definition page_of :: "Request \<Rightarrow> number" where
  "page_of request = parseInt (or_default (map_of (searchParams request) ''page'') ''1'')"

definition limit_of :: "Request \<Rightarrow> number" where
  "limit_of request =
     math_min (parseInt (or_default (map_of (searchParams request) ''limit'') ''100'')) 100"

definition fetchCall :: "Env \<Rightarrow> Request \<Rightarrow> string \<Rightarrow> FetchCall" where
  "fetchCall env request steamId =
     \<lparr> url = inventoryUrl_of request steamId (getInventoryAppId (appId_of request))
               (getContextId (appId_of request)) (limit_of request) (page_of request),
       cookie_header = ''steamLoginSecure='' @ communityToken env,
       revalidate = 300,
       cache_tags = [''user-'' @ steamId @ ''-inventory''] \<rparr>"

definition fetchInventory ::
  "Env \<Rightarrow> Request \<Rightarrow> string \<Rightarrow> (string + Response) \<times> FetchCall list" where
  "fetchInventory env request steamId =
     (let call = fetchCall env request steamId
      in (case classify (fetch env call) of
            Inl message \<Rightarrow> Inl message
          | Inr inventoryData \<Rightarrow>
              Inr (successResponse env (appId_of request) steamId (page_of request)
                     (limit_of request) inventoryData),
          [call]))"

definition GET_try :: "Env \<Rightarrow> Request \<Rightarrow> (string + Response) \<times> FetchCall list" where
  "GET_try env request =
     (case map_of (cookies request) ''steam_session'' of
        None \<Rightarrow> (Inr (json_response (ErrorBody ''Unauthorized'') 401), [])
      | Some v \<Rightarrow>
          if v = [] then (Inr (json_response (ErrorBody ''Unauthorized'') 401), [])
          else
            (case JSON_parse env v of
               Inl message \<Rightarrow> (Inl message, [])
             | Inr userData \<Rightarrow>
                 if \<not> validateSteamSession env userData
                 then (Inr (json_response (ErrorBody ''Invalid session'') 401), [])
                 else
                   (case steamId_of request userData of
                      None \<Rightarrow> (Inr (json_response (ErrorBody ''Steam ID required'') 400), [])
                    | Some steamId \<Rightarrow>
                        if steamId = []
                        then (Inr (json_response (ErrorBody ''Steam ID required'') 400), [])
                        else fetchInventory env request steamId)))"

definition GET :: "Env \<Rightarrow> Request \<Rightarrow> Response \<times> FetchCall list" where
  "GET env request =
     (case GET_try env request of
        (Inl message, calls) \<Rightarrow> (errorResponse env message, calls)
      | (Inr response, calls) \<Rightarrow> (response, calls))"

section \<open>A concrete inventory\<close>

text \<open>
  One asset with its description, the page holding them, and an environment whose upstream
  service answers every call with a given result. The session cookie is the JSON text of
  an object with the Steam id 42; the only other cookie text used below, \<^verbatim>\<open>not-json\<close>, is
  not JSON text, and the \<^verbatim>\<open>JSON.parse\<close> of this environment rejects it.
\<close>

definition example_asset :: SteamAsset where
  "example_asset =
     \<lparr> asset_appid = Some 753,
       asset_contextid = Some ''6'',
       asset_assetid = Some ''A'',
       asset_classid = Some ''1'',
       asset_instanceid = Some ''0'',
       asset_amount = Some ''1'' \<rparr>"

definition example_description :: SteamDescription where
  "example_description =
     \<lparr> appid = Some 753,
       classid = Some ''1'',
       instanceid = Some ''0'',
       name = Some ''Trading Card'',
       market_hash_name = Some ''753-Trading Card'',
       market_name = Some ''Trading Card'',
       type = Some ''Card'',
       tradable = Some 1,
       marketable = Some 1,
       commodity = Some 0,
       market_tradable_restriction = Some 7,
       descriptions = Some [],
       actions = None,
       name_color = None,
       background_color = None,
       icon_url = Some ''icon'',
       icon_url_large = None,
       tags = Some [] \<rparr>"

definition example_item :: "string \<Rightarrow> string \<Rightarrow> string option \<Rightarrow> SteamInventoryItem" where
  "example_item assetId itemName color =
     merge (example_asset \<lparr> asset_assetid := Some assetId \<rparr>)
       (example_description \<lparr> name := Some itemName, name_color := color \<rparr>)"

definition example_page :: "SteamAsset list option \<Rightarrow> SteamDescription list option \<Rightarrow> InventoryData" where
  "example_page as ds =
     \<lparr> inv_error = None,
       inv_assets = as,
       inv_descriptions = ds,
       total_inventory_count = None,
       more_items = None,
       last_assetid = None \<rparr>"

definition example_cookie :: string where
  \<open>example_cookie = ''{"steamid":"42"}''\<close>

definition example_env :: "bool \<Rightarrow> FetchResult \<Rightarrow> Env" where
  "example_env dev answer =
     \<lparr> isDev = dev,
       communityToken = ''token'',
       JSON_parse =
         (\<lambda>s. if s = example_cookie then Inr \<lparr> steamid = Some ''42'' \<rparr>
              else Inl ''Unexpected token''),
       validateSteamSession = (\<lambda>u. truthy_str (steamid u)),
       fetch = (\<lambda>call. answer),
       localeCompare = lex_compare \<rparr>"

definition example_request :: "(string \<times> string) list \<Rightarrow> Request" where
  "example_request params =
     \<lparr> cookies = [(''steam_session'', example_cookie)], searchParams = params \<rparr>"

definition example_answer :: "SteamDescription list \<Rightarrow> FetchResult" where
  "example_answer ds = Fetched 200 [] (JsonBody (example_page (Some [example_asset]) (Some ds)))"

definition private_profile :: FetchResult where
  "private_profile =
     Fetched 200 []
       (JsonBody ((example_page None None) \<lparr> inv_error := Some ''Profile is private'' \<rparr>))"


definition empty_error_page :: InventoryData where
  "empty_error_page =
     (example_page (Some [example_asset]) (Some [example_description])) \<lparr> inv_error := Some [] \<rparr>"

definition empty_error :: FetchResult where
  "empty_error = Fetched 200 [] (JsonBody empty_error_page)"

text \<open>The items of a response that carries an item list, and its success envelope.\<close>

definition response_items :: "Response \<Rightarrow> SteamInventoryItem list option" where
  "response_items r =
     (case body r of
        ErrorBody e \<Rightarrow> None
      | Failure f \<Rightarrow> Some (f_items f)
      | Success e \<Rightarrow> Some (s_items e))"

definition success_of :: "Response \<Rightarrow> SuccessEnvelope option" where
  "success_of r = (case body r of Success e \<Rightarrow> Some e | _ \<Rightarrow> None)"

section \<open>Properties of the sort\<close>

lemma set_insert_by: "set (insert_by c x ys) = insert x (set ys)"
  by (induction ys) auto

lemma set_sort_by: "set (sort_by c xs) = set xs"
  by (induction xs) (auto simp: sort_by_def set_insert_by)

lemma length_insert_by: "length (insert_by c x ys) = Suc (length ys)"
  by (induction ys) auto

lemma length_sort_by: "length (sort_by c xs) = length xs"
  by (induction xs) (auto simp: sort_by_def length_insert_by)

lemma consistent_sym0: "consistent c \<Longrightarrow> c x y = 0 \<Longrightarrow> c y x = 0"
  unfolding consistent_def by (metis less_irrefl linorder_neqE_linordered_idom)

lemma consistent_total: "consistent c \<Longrightarrow> \<not> c x y \<le> 0 \<Longrightarrow> c y x \<le> 0"
  unfolding consistent_def by (metis not_le order_less_imp_le)

lemma consistent_trans: "consistent c \<Longrightarrow> c x y \<le> 0 \<Longrightarrow> c y z \<le> 0 \<Longrightarrow> c x z \<le> 0"
  unfolding consistent_def by blast

lemma sorted_insert_by:
  "consistent c \<Longrightarrow> sorted_wrt (\<lambda>a b. c a b \<le> 0) ys \<Longrightarrow> sorted_wrt (\<lambda>a b. c a b \<le> 0) (insert_by c x ys)"
proof (induction ys)
  case Nil
  then show ?case by simp
next
  case (Cons y ys)
  show ?case
  proof (cases "c x y \<le> 0")
    case True
    with Cons.prems show ?thesis
      by (auto intro: consistent_trans)
  next
    case False
    with Cons show ?thesis
      by (auto simp: set_insert_by dest: consistent_total)
  qed
qed

lemma sorted_sort_by: "consistent c \<Longrightarrow> sorted_wrt (\<lambda>a b. c a b \<le> 0) (sort_by c xs)"
  by (induction xs) (auto simp: sort_by_def sorted_insert_by)

lemma sort_by_sorted: "sorted_wrt (\<lambda>a b. c a b \<le> 0) xs \<Longrightarrow> sort_by c xs = xs"
proof (induction xs)
  case Nil
  then show ?case by (simp add: sort_by_def)
next
  case (Cons x xs)
  then have "sort_by c xs = xs" by simp
  then have "sort_by c (x # xs) = insert_by c x xs" by (simp add: sort_by_def)
  also have "\<dots> = x # xs" using Cons.prems by (cases xs) auto
  finally show ?case .
qed

lemma filter_insert_by:
  assumes "consistent c"
  shows "filter (\<lambda>y. c k y = 0) (insert_by c x ys) =
         (if c k x = 0 then x # filter (\<lambda>y. c k y = 0) ys else filter (\<lambda>y. c k y = 0) ys)"
proof (induction ys)
  case Nil
  show ?case by simp
next
  case (Cons y ys)
  have eq: "c k x = 0 \<Longrightarrow> c k y = 0 \<Longrightarrow> c x y \<le> 0"
    using assms consistent_sym0 consistent_trans by (metis order_refl)
  show ?case using Cons eq by auto
qed

lemma filter_sort_by:
  "consistent c \<Longrightarrow> filter (\<lambda>y. c k y = 0) (sort_by c xs) = filter (\<lambda>y. c k y = 0) xs"
  by (induction xs) (auto simp: sort_by_def filter_insert_by)

text \<open>
  The sorted arrangement that keeps the order of equally ranked elements is unique: every
  list that is sorted by a total preorder and agrees with the input on each class of equally
  ranked elements is the result of \<^const>\<open>sort_by\<close>.
\<close>

lemma sorted_stable_unique:
  assumes c: "consistent c"
  shows "sorted_wrt (\<lambda>a b. c a b \<le> 0) ys \<Longrightarrow> sorted_wrt (\<lambda>a b. c a b \<le> 0) zs \<Longrightarrow>
         (\<forall>k. filter (\<lambda>x. c k x = 0) ys = filter (\<lambda>x. c k x = 0) zs) \<Longrightarrow> ys = zs"
proof (induction ys arbitrary: zs)
  case Nil
  have r: "\<And>x. c x x = 0" using c unfolding consistent_def by blast
  show ?case
  proof (cases zs)
    case Nil
    then show ?thesis by simp
  next
    case (Cons z zs')
    from Nil.prems(3) have "filter (\<lambda>x. c z x = 0) [] = filter (\<lambda>x. c z x = 0) zs"
      by (rule spec)
    with Cons r [of z] show ?thesis by simp
  qed
next
  case (Cons y ys')
  have r: "\<And>x. c x x = 0" using c unfolding consistent_def by blast
  have a: "\<And>x y. (c x y < 0) = (0 < c y x)" using c unfolding consistent_def by blast
  from Cons.prems(3) have "filter (\<lambda>x. c y x = 0) (y # ys') = filter (\<lambda>x. c y x = 0) zs"
    by (rule spec)
  then have fy: "filter (\<lambda>x. c y x = 0) zs = y # filter (\<lambda>x. c y x = 0) ys'"
    using r [of y] by simp
  then obtain z zs' where zs: "zs = z # zs'" by (cases zs) auto
  have "y \<in> set (filter (\<lambda>x. c y x = 0) zs)" using fy by simp
  then have yin: "y \<in> set zs" by simp
  have "filter (\<lambda>x. c z x = 0) (y # ys') = filter (\<lambda>x. c z x = 0) zs"
    using Cons.prems(3) by (rule spec)
  then have "z \<in> set (filter (\<lambda>x. c z x = 0) (y # ys'))" using zs r [of z] by simp
  then have zin: "z \<in> set (y # ys')" by (simp only: set_filter) blast
  have zy: "c z y \<le> 0"
  proof (cases "y = z")
    case True
    then show ?thesis using r [of z] by simp
  next
    case False
    with yin zs have "y \<in> set zs'" by simp
    with Cons.prems(2) zs show ?thesis by simp
  qed
  have yz: "c y z \<le> 0"
  proof (cases "z = y")
    case True
    then show ?thesis using r [of y] by simp
  next
    case False
    with zin have "z \<in> set ys'" by simp
    with Cons.prems(1) show ?thesis by simp
  qed
  have "c y z = 0" using zy yz a [of y z] by simp
  then have "filter (\<lambda>x. c y x = 0) zs = z # filter (\<lambda>x. c y x = 0) zs'" using zs by simp
  with fy have eq: "z = y" by simp
  have "\<forall>k. filter (\<lambda>x. c k x = 0) ys' = filter (\<lambda>x. c k x = 0) zs'"
  proof
    fix k
    from Cons.prems(3) have "filter (\<lambda>x. c k x = 0) (y # ys') = filter (\<lambda>x. c k x = 0) zs"
      by (rule spec)
    then have "filter (\<lambda>x. c k x = 0) (y # ys') = filter (\<lambda>x. c k x = 0) (y # zs')"
      using zs eq by simp
    then show "filter (\<lambda>x. c k x = 0) ys' = filter (\<lambda>x. c k x = 0) zs'"
      by (cases "c k y = 0") simp_all
  qed
  moreover have "sorted_wrt (\<lambda>a b. c a b \<le> 0) ys'" "sorted_wrt (\<lambda>a b. c a b \<le> 0) zs'"
    using Cons.prems(1,2) zs by simp_all
  ultimately have "ys' = zs'" by (rule Cons.IH [rotated 2])
  with zs eq show ?case by simp
qed

lemma stable_sort_is_sort_by:
  assumes "consistent c" and "sorted_wrt (\<lambda>a b. c a b \<le> 0) ys"
    and "\<forall>k. filter (\<lambda>x. c k x = 0) ys = filter (\<lambda>x. c k x = 0) xs"
  shows "ys = sort_by c xs"
proof -
  have "\<forall>k. filter (\<lambda>x. c k x = 0) ys = filter (\<lambda>x. c k x = 0) (sort_by c xs)"
    using assms(1,3) by (simp add: filter_sort_by)
  with assms(1,2) sorted_sort_by [OF assms(1)] show ?thesis
    by (rule sorted_stable_unique)
qed

section \<open>Properties of the comparators\<close>

lemma lex_compare_refl: "lex_compare x x = 0"
  by (induction x) auto

lemma lex_compare_anti: "(lex_compare x y < 0) = (0 < lex_compare y x)"
  by (induction x y rule: lex_compare.induct) auto


lemma lex_compare_trans:
  "lex_compare x y \<le> 0 \<Longrightarrow> lex_compare y z \<le> 0 \<Longrightarrow> lex_compare x z \<le> 0"
proof (induction x y arbitrary: z rule: lex_compare.induct)
  case 1
  then show ?case by simp
next
  case (2 y ys)
  then show ?case by (cases z) simp_all
next
  case (3 x xs)
  then show ?case by simp
next
  case (4 x xs y ys)
  show ?case
  proof (cases z)
    case Nil
    with 4(3) show ?thesis by simp
  next
    case (Cons c cs)
    consider "(of_char x :: nat) < of_char y" | "(of_char x :: nat) = of_char y" 
      using 4(2) by (cases "(of_char x :: nat) < of_char y"; cases "(of_char y :: nat) < of_char x") auto
    then show ?thesis
    proof cases
      case 1
      have "(of_char y :: nat) \<le> of_char c" using 4(3) Cons by (simp split: if_splits)
      with 1 have "(of_char x :: nat) < of_char c" by simp
      then show ?thesis using Cons by simp
    next
      case 2
      then have xy: "lex_compare xs ys \<le> 0" using 4(2) by simp
      show ?thesis
      proof (cases "(of_char y :: nat) < of_char c")
        case True
        then show ?thesis using 2 Cons by simp
      next
        case False
        then have yc: "(of_char y :: nat) = of_char c" and "lex_compare ys cs \<le> 0"
          using 4(3) Cons by (simp_all split: if_splits)
        then have "lex_compare xs cs \<le> 0" using 4(1) 2 xy by simp
        then show ?thesis using 2 yc Cons by simp
      qed
    qed
  qed
qed

lemma consistent_lex_compare: "consistent lex_compare"
  unfolding consistent_def
  using lex_compare_refl lex_compare_anti lex_compare_trans by blast

lemma consistent_compareItems:
  assumes "consistent lc"
  shows "consistent (compareItems lc)"
proof -
  have r: "\<And>x. lc x x = 0" and a: "\<And>x y. (lc x y < 0) = (0 < lc y x)"
    and t: "\<And>x y z. lc x y \<le> 0 \<Longrightarrow> lc y z \<le> 0 \<Longrightarrow> lc x z \<le> 0"
    using assms unfolding consistent_def by blast+
  have 1: "compareItems lc x x = 0" for x
    by (simp add: compareItems_def r)
  have 2: "(compareItems lc x y < 0) = (0 < compareItems lc y x)" for x y
    by (simp add: compareItems_def a)
  have 3: "compareItems lc x z \<le> 0"
    if xy: "compareItems lc x y \<le> 0" and yz: "compareItems lc y z \<le> 0" for x y z
  proof (cases "truthy_str (name_color x)")
    case cx: True
    show ?thesis
    proof (cases "truthy_str (name_color z)")
      case cz: True
      have cy: "truthy_str (name_color y)"
        using yz cz by (simp add: compareItems_def split: if_splits)
      have "lc (color_of z) (color_of y) \<le> 0" "lc (color_of y) (color_of x) \<le> 0"
        using xy yz cx cy cz by (simp_all add: compareItems_def)
      then have "lc (color_of z) (color_of x) \<le> 0" by (rule t)
      then show ?thesis using cx cz by (simp add: compareItems_def)
    next
      case False
      then show ?thesis using cx by (simp add: compareItems_def)
    qed
  next
    case nx: False
    have ny: "\<not> truthy_str (name_color y)"
      using xy nx by (simp add: compareItems_def split: if_splits)
    have nz: "\<not> truthy_str (name_color z)"
      using yz ny by (simp add: compareItems_def split: if_splits)
    have "lc (name_of x) (name_of y) \<le> 0" "lc (name_of y) (name_of z) \<le> 0"
      using xy yz nx ny nz by (simp_all add: compareItems_def)
    then have "lc (name_of x) (name_of z) \<le> 0" by (rule t)
    then show ?thesis using nx nz by (simp add: compareItems_def)
  qed
  show ?thesis unfolding consistent_def using 1 2 3 by blast
qed

section \<open>Decimal strings parse\<close>






section \<open>The shape of the handler's result\<close>

lemma body_errorResponse: "body (errorResponse env m) = Failure \<lparr> f_success = False, f_error = ''Failed to fetch inventory'', f_details = (if isDev env then Some m else None), f_items = [], f_total_count = 0 \<rparr>"
  by (simp add: errorResponse_def set_header_def json_response_def)

lemma GET_shape:
  "(GET env request = (json_response (ErrorBody ''Unauthorized'') 401, [])) \<or>
   (GET env request = (json_response (ErrorBody ''Invalid session'') 401, [])) \<or>
   (GET env request = (json_response (ErrorBody ''Steam ID required'') 400, [])) \<or>
   (\<exists>m. GET env request = (errorResponse env m, [])) \<or>
   (\<exists>steamId. steamId \<noteq> [] \<and>
      GET env request =
        ((case classify (fetch env (fetchCall env request steamId)) of
            Inl m \<Rightarrow> errorResponse env m
          | Inr inventoryData \<Rightarrow>
              successResponse env (appId_of request) steamId (page_of request)
                (limit_of request) inventoryData),
         [fetchCall env request steamId]))"
  unfolding GET_def GET_try_def fetchInventory_def Let_def
  by (auto split: option.splits sum.splits)

lemma body_successResponse:
  "body (successResponse env appId steamId page limit d) =
     Success \<lparr> s_success = True,
               s_items = filteredItems env appId d,
               s_total_count = or_zero (total_inventory_count d),
               s_page = page,
               s_limit = limit,
               s_total_pages = ceil_div (or_zero (total_inventory_count d)) limit,
               s_has_more = more_items d,
               s_next_start_asset_id = last_assetid d,
               s_app_id = getInventoryAppId appId,
               s_context_id = getContextId appId \<rparr>"
  by (simp add: successResponse_def set_header_def json_response_def Let_def)


lemma GET_success:
  assumes "GET env request = (response, calls)" and "body response = Success e"
  shows "\<exists>steamId inventoryData. steamId \<noteq> [] \<and> calls = [fetchCall env request steamId] \<and>
           classify (fetch env (fetchCall env request steamId)) = Inr inventoryData \<and>
           response = successResponse env (appId_of request) steamId (page_of request) (limit_of request) inventoryData"
proof -
  have nb: "body (json_response (ErrorBody x) st) \<noteq> Success e" for x st
    by (simp add: json_response_def)
  have ne: "body (errorResponse env m) \<noteq> Success e" for m
    by (simp add: body_errorResponse)
  from GET_shape [of env request] assms nb ne
  obtain steamId where s: "steamId \<noteq> []"
    and g: "GET env request =
        ((case classify (fetch env (fetchCall env request steamId)) of
            Inl m \<Rightarrow> errorResponse env m
          | Inr inventoryData \<Rightarrow>
              successResponse env (appId_of request) steamId (page_of request)
                (limit_of request) inventoryData),
         [fetchCall env request steamId])"
    by fastforce
  show ?thesis
  proof (cases "classify (fetch env (fetchCall env request steamId))")
    case (Inl m)
    with g assms ne show ?thesis by auto
  next
    case (Inr d)
    with g assms s show ?thesis by auto
  qed
qed

lemma set_map_filter:
  "set (List.map_filter f xs) = {y. \<exists>x \<in> set xs. f x = Some y}"
  by (induction xs) (auto split: option.splits)

lemma set_mergeItems:
  "set (mergeItems assets descs) = {item. \<exists>asset \<in> set assets. mergeAsset descs asset = Some item}"
  by (simp add: mergeItems_def set_map_filter)

lemma mergeAsset_Some:
  "mergeAsset descs asset = Some item \<longleftrightarrow>
     (\<exists>description. find (matches asset) descs = Some description \<and>
        item = merge asset description \<and> isValidInventoryItem item)"
  by (auto simp: mergeAsset_def Let_def split: option.splits)

lemma set_filterItems:
  "set (filterItems appId its) =
     {item \<in> set its. truthy_str appId \<longrightarrow> Some (appid_toString item) = appId}"
  by (cases appId) (auto simp: filterItems_def)

lemma set_filteredItems:
  "set (filteredItems env appId d) =
     {item. (\<exists>asset \<in> set (or_empty (inv_assets d)). \<exists>description.
               find (matches asset) (or_empty (inv_descriptions d)) = Some description \<and>
               item = merge asset description \<and> isValidInventoryItem item) \<and>
            (truthy_str appId \<longrightarrow> Some (appid_toString item) = appId)}"
  by (auto simp: filteredItems_def sortItems_def set_sort_by set_filterItems set_mergeItems mergeAsset_Some)

lemma truthy_str_iff: "truthy_str x \<longleftrightarrow> (\<exists>s. x = Some s \<and> s \<noteq> [])"
  by (cases x) auto

lemma truthy_num_iff: "truthy_num x \<longleftrightarrow> (\<exists>n. x = Some n \<and> n \<noteq> 0)"
  by (cases x) auto

lemma isValidInventoryItem_fields:
  "isValidInventoryItem item \<longleftrightarrow>
     (\<exists>n. appid item = Some n \<and> n \<noteq> 0) \<and>
     (\<exists>s. contextid item = Some s \<and> s \<noteq> []) \<and>
     (\<exists>s. assetid item = Some s \<and> s \<noteq> []) \<and>
     (\<exists>s. classid item = Some s \<and> s \<noteq> []) \<and>
     (\<exists>s. instanceid item = Some s \<and> s \<noteq> []) \<and>
     (\<exists>s. amount item = Some s \<and> s \<noteq> []) \<and>
     (\<exists>s. name item = Some s \<and> s \<noteq> []) \<and>
     (\<exists>s. market_hash_name item = Some s \<and> s \<noteq> []) \<and>
     (\<exists>s. market_name item = Some s \<and> s \<noteq> []) \<and>
     (\<exists>s. type item = Some s \<and> s \<noteq> []) \<and>
     (\<exists>s. icon_url item = Some s \<and> s \<noteq> []) \<and>
     (\<exists>n. tradable item = Some n) \<and>
     (\<exists>n. marketable item = Some n) \<and>
     (\<exists>n. commodity item = Some n) \<and>
     (\<exists>n. market_tradable_restriction item = Some n) \<and>
     (\<exists>ds. descriptions item = Some ds) \<and>
     (\<exists>ts. tags item = Some ts)"
  unfolding isValidInventoryItem_def truthy_str_iff truthy_num_iff by blast

lemma GET_called:
  assumes "snd (GET env request) = [call]"
  shows "\<exists>steamId. steamId \<noteq> [] \<and> call = fetchCall env request steamId \<and>
           fst (GET env request) =
             (case classify (fetch env call) of
                Inl m \<Rightarrow> errorResponse env m
              | Inr inventoryData \<Rightarrow>
                  successResponse env (appId_of request) steamId (page_of request)
                    (limit_of request) inventoryData)"
  using GET_shape [of env request] assms by auto









lemma missing_session_401:
  assumes "\<not> truthy_str (map_of (cookies request) ''steam_session'')"
  shows "GET env request = (json_response (ErrorBody ''Unauthorized'') 401, [])"
  using assms unfolding GET_def GET_try_def by (auto split: option.splits)

lemma rejected_session_401:
  assumes "map_of (cookies request) ''steam_session'' = Some v" and "v \<noteq> []"
    and "JSON_parse env v = Inr userData" and "\<not> validateSteamSession env userData"
  shows "GET env request = (json_response (ErrorBody ''Invalid session'') 401, [])"
  using assms unfolding GET_def GET_try_def by simp

lemma unparseable_session_500:
  assumes "map_of (cookies request) ''steam_session'' = Some v" and "v \<noteq> []"
    and "JSON_parse env v = Inl message"
  shows "GET env request = (errorResponse env message, [])"
  using assms unfolding GET_def GET_try_def by simp



section \<open>Reconciliation: which items the handler returns\<close>

text \<open>
  Claim C1, amended. Whenever the handler answers with a success envelope, an item is in
  the envelope's item list if and only if it is the merge of an asset of the page with the
  first description whose \<^verbatim>\<open>classid\<close> and \<^verbatim>\<open>instanceid\<close> equal the asset's, the merged
  item passes \<^const>\<open>isValidInventoryItem\<close>, and, when a non-empty \<^verbatim>\<open>appid\<close> parameter was
  given, the decimal string of the item's \<^verbatim>\<open>appid\<close> equals that parameter. Every item of the
  list has all required fields: the eleven identity and presentation fields present and
  non-empty (non-zero for \<^verbatim>\<open>appid\<close>), the four flags present, and both arrays present.
\<close>

theorem output_items_valid_and_selected:
  assumes "GET env request = (response, calls)" and "body response = Success e"
  shows "\<exists>call inventoryData.
           calls = [call] \<and> classify (fetch env call) = Inr inventoryData \<and>
           (\<forall>item. item \<in> set (s_items e) \<longleftrightarrow>
              (\<exists>asset \<in> set (or_empty (inv_assets inventoryData)). \<exists>description.
                  find (matches asset) (or_empty (inv_descriptions inventoryData)) = Some description \<and>
                  item = merge asset description \<and> isValidInventoryItem item) \<and>
              (truthy_str (appId_of request) \<longrightarrow> Some (appid_toString item) = appId_of request)) \<and>
           (\<forall>item \<in> set (s_items e).
              (\<exists>n. appid item = Some n \<and> n \<noteq> 0) \<and>
              (\<exists>s. contextid item = Some s \<and> s \<noteq> []) \<and>
              (\<exists>s. assetid item = Some s \<and> s \<noteq> []) \<and>
              (\<exists>s. classid item = Some s \<and> s \<noteq> []) \<and>
              (\<exists>s. instanceid item = Some s \<and> s \<noteq> []) \<and>
              (\<exists>s. amount item = Some s \<and> s \<noteq> []) \<and>
              (\<exists>s. name item = Some s \<and> s \<noteq> []) \<and>
              (\<exists>s. market_hash_name item = Some s \<and> s \<noteq> []) \<and>
              (\<exists>s. market_name item = Some s \<and> s \<noteq> []) \<and>
              (\<exists>s. type item = Some s \<and> s \<noteq> []) \<and>
              (\<exists>s. icon_url item = Some s \<and> s \<noteq> []) \<and>
              (\<exists>n. tradable item = Some n) \<and>
              (\<exists>n. marketable item = Some n) \<and>
              (\<exists>n. commodity item = Some n) \<and>
              (\<exists>n. market_tradable_restriction item = Some n) \<and>
              (\<exists>ds. descriptions item = Some ds) \<and>
              (\<exists>ts. tags item = Some ts))"
proof -
  from GET_success [OF assms] obtain steamId d where
    c: "calls = [fetchCall env request steamId]" and
    k: "classify (fetch env (fetchCall env request steamId)) = Inr d" and
    r: "response = successResponse env (appId_of request) steamId (page_of request) (limit_of request) d"
    by blast
  from r assms(2) have i: "s_items e = filteredItems env (appId_of request) d"
    by (auto simp: body_successResponse)
  have m: "\<forall>item. item \<in> set (s_items e) \<longleftrightarrow>
              (\<exists>asset \<in> set (or_empty (inv_assets d)). \<exists>description.
                  find (matches asset) (or_empty (inv_descriptions d)) = Some description \<and>
                  item = merge asset description \<and> isValidInventoryItem item) \<and>
              (truthy_str (appId_of request) \<longrightarrow> Some (appid_toString item) = appId_of request)"
    unfolding i set_filteredItems by simp
  have v: "\<forall>item \<in> set (s_items e). isValidInventoryItem item"
    using m by blast
  show ?thesis
    apply (rule exI [of _ "fetchCall env request steamId"])
    apply (rule exI [of _ d])
    apply (intro conjI c k m)
    using v unfolding isValidInventoryItem_fields by blast
qed

text \<open>
  The theorem at the concrete inventory, with no \<^verbatim>\<open>appid\<close> parameter: the merged item is in
  the list.
\<close>

theorem output_items_witness:
  "body (fst (GET (example_env True (example_answer [example_description])) (example_request []))) =
     Success (the (success_of (fst (GET (example_env True (example_answer [example_description])) (example_request []))))) \<and>
   merge example_asset example_description \<in>
     set (s_items (the (success_of (fst (GET (example_env True (example_answer [example_description])) (example_request []))))))"
proof -
  let ?E = "example_env True (example_answer [example_description])"
  let ?R = "example_request []"
  let ?e = "the (success_of (fst (GET ?E ?R)))"
  have b: "body (fst (GET ?E ?R)) = Success ?e" by code_simp
  have g: "GET ?E ?R = (fst (GET ?E ?R), snd (GET ?E ?R))" by simp
  from output_items_valid_and_selected [OF g b] obtain call d where
    c: "snd (GET ?E ?R) = [call]" and k: "classify (fetch ?E call) = Inr d" and
    m: "\<forall>item. item \<in> set (s_items ?e) \<longleftrightarrow>
              (\<exists>asset \<in> set (or_empty (inv_assets d)). \<exists>description.
                  find (matches asset) (or_empty (inv_descriptions d)) = Some description \<and>
                  item = merge asset description \<and> isValidInventoryItem item) \<and>
              (truthy_str (appId_of ?R) \<longrightarrow> Some (appid_toString item) = appId_of ?R)"
    by blast
  have d: "d = example_page (Some [example_asset]) (Some [example_description])"
    using k by (simp add: example_env_def example_answer_def classify_def example_page_def)
  have 1: "find (matches example_asset) [example_description] = Some example_description"
    by (simp add: matches_def example_asset_def example_description_def)
  have 2: "isValidInventoryItem (merge example_asset example_description)" by code_simp
  have 3: "\<not> truthy_str (appId_of ?R)" by (simp add: appId_of_def example_request_def)
  have "merge example_asset example_description \<in> set (s_items ?e)"
    using m d 1 2 3 by (auto simp: or_empty_def example_page_def)
  with b show ?thesis by simp
qed

text \<open>
  Claim C1 as stated fails when a filter is given: for \<^verbatim>\<open>appid=abc\<close> the asset has a
  matching description and the merged item passes validation, yet the item list is empty.
\<close>

theorem output_items_counterexample:
  "find (matches example_asset) [example_description] = Some example_description \<and>
   isValidInventoryItem (merge example_asset example_description) \<and>
   response_items (fst (GET (example_env True (example_answer [example_description]))
      (example_request [(''appid'', ''abc'')]))) = Some []"
  by code_simp

section \<open>Unmatched assets\<close>



section \<open>Identifier resolution on an unparseable id\<close>

text \<open>
  Claim C2, evaluated. For the id \<^verbatim>\<open>abc\<close>, which \<^verbatim>\<open>parseInt\<close> does not parse, the handler
  resolves the app id 753 together with the context id 2, not the community context 6 it
  resolves for an absent id and for the id 753.
\<close>

theorem resolve_unparseable_abc:
  "isNaN (parseInt ''abc'') \<and> resolve (Some ''abc'') = (''753'', ''2'') \<and>
   resolve None = (''753'', ''6'') \<and> resolve (Some ''753'') = (''753'', ''6'')"
  by code_simp

section \<open>The comparator\<close>



section \<open>Stability of the sort\<close>

text \<open>
  Claim C9. For a collation that is a total preorder, sorting a sorted list changes
  nothing, and the items the comparator ranks equal to any given item keep their relative
  order; two items with the same non-empty colour, and two items without colour and with
  the same name, are ranked equal.
\<close>

theorem sort_idempotent_and_stable:
  assumes "consistent lc"
  shows "sortItems lc (sortItems lc its) = sortItems lc its \<and>
         filter (\<lambda>x. compareItems lc k x = 0) (sortItems lc its) =
           filter (\<lambda>x. compareItems lc k x = 0) its \<and>
         (truthy_str (name_color a) \<and> name_color a = name_color b \<longrightarrow> compareItems lc a b = 0) \<and>
         (\<not> truthy_str (name_color a) \<and> \<not> truthy_str (name_color b) \<and> name a = name b \<longrightarrow>
            compareItems lc a b = 0)"
proof -
  have c: "consistent (compareItems lc)" using assms by (rule consistent_compareItems)
  have r: "\<And>x. lc x x = 0" using assms unfolding consistent_def by blast
  have 1: "sortItems lc (sortItems lc its) = sortItems lc its"
    unfolding sortItems_def using sorted_sort_by [OF c] by (rule sort_by_sorted)
  have 2: "filter (\<lambda>x. compareItems lc k x = 0) (sortItems lc its) =
           filter (\<lambda>x. compareItems lc k x = 0) its"
    unfolding sortItems_def using c by (rule filter_sort_by)
  have 3: "truthy_str (name_color a) \<and> name_color a = name_color b \<longrightarrow> compareItems lc a b = 0"
    by (auto simp: compareItems_def color_of_def r)
  have 4: "\<not> truthy_str (name_color a) \<and> \<not> truthy_str (name_color b) \<and> name a = name b \<longrightarrow>
            compareItems lc a b = 0"
    by (simp add: compareItems_def name_of_def r)
  from 1 2 3 4 show ?thesis by blast
qed

text \<open>
  The theorem for the lexicographic collation on three items, two of them ranked equal.
\<close>

theorem sort_idempotent_and_stable_witness:
  "consistent lex_compare \<and>
   sortItems lex_compare
     [example_item ''A1'' ''Card'' None, example_item ''A2'' ''Card'' None,
      example_item ''A3'' ''Badge'' (Some ''Common'')] =
     [example_item ''A3'' ''Badge'' (Some ''Common''), example_item ''A1'' ''Card'' None,
      example_item ''A2'' ''Card'' None] \<and>
   sortItems lex_compare
     (sortItems lex_compare
        [example_item ''A1'' ''Card'' None, example_item ''A2'' ''Card'' None,
         example_item ''A3'' ''Badge'' (Some ''Common'')]) =
     [example_item ''A3'' ''Badge'' (Some ''Common''), example_item ''A1'' ''Card'' None,
      example_item ''A2'' ''Card'' None] \<and>
   filter (\<lambda>x. compareItems lex_compare (example_item ''A1'' ''Card'' None) x = 0)
     (sortItems lex_compare
        [example_item ''A1'' ''Card'' None, example_item ''A2'' ''Card'' None,
         example_item ''A3'' ''Badge'' (Some ''Common'')]) =
     [example_item ''A1'' ''Card'' None, example_item ''A2'' ''Card'' None]"
proof -
  let ?L = "[example_item ''A1'' ''Card'' None, example_item ''A2'' ''Card'' None,
      example_item ''A3'' ''Badge'' (Some ''Common'')]"
  let ?S = "[example_item ''A3'' ''Badge'' (Some ''Common''), example_item ''A1'' ''Card'' None,
      example_item ''A2'' ''Card'' None]"
  have s: "sortItems lex_compare ?L = ?S" by code_simp
  have f: "filter (\<lambda>x. compareItems lex_compare (example_item ''A1'' ''Card'' None) x = 0) ?L =
     [example_item ''A1'' ''Card'' None, example_item ''A2'' ''Card'' None]" by code_simp
  from sort_idempotent_and_stable [OF consistent_lex_compare,
      of ?L "example_item ''A1'' ''Card'' None"]
  have "sortItems lex_compare (sortItems lex_compare ?L) = sortItems lex_compare ?L"
    and "filter (\<lambda>x. compareItems lex_compare (example_item ''A1'' ''Card'' None) x = 0)
           (sortItems lex_compare ?L) =
         filter (\<lambda>x. compareItems lex_compare (example_item ''A1'' ''Card'' None) x = 0) ?L"
    by blast+
  with s f consistent_lex_compare show ?thesis by simp
qed

section \<open>Sessions\<close>

text \<open>
  Claim C5, evaluated. A request whose session cookie is not JSON text is answered with
  status 500 and no upstream call; a request without the cookie is answered with 401.
\<close>

theorem unparseable_session_cookie:
  "status (fst (GET (example_env True (example_answer [example_description]))
      \<lparr> cookies = [(''steam_session'', ''not-json'')], searchParams = [] \<rparr>)) = 500 \<and>
   snd (GET (example_env True (example_answer [example_description]))
      \<lparr> cookies = [(''steam_session'', ''not-json'')], searchParams = [] \<rparr>) = [] \<and>
   status (fst (GET (example_env True (example_answer [example_description]))
      \<lparr> cookies = [], searchParams = [] \<rparr>)) = 401"
  by code_simp

section \<open>Upstream errors\<close>

text \<open>
  Claim C6, amended. When the upstream call was made, its status is between 200 and 299 and
  its body has a non-empty \<^verbatim>\<open>error\<close> field \<open>e\<close>, the handler answers with status 500, the body
  \<^verbatim>\<open>{success: false, error: "Failed to fetch inventory", details, items: [], total_count: 0}\<close>
  where \<^verbatim>\<open>details\<close> is \<^verbatim>\<open>Steam API error: \<close>\<open>e\<close> in development mode and absent
  otherwise, and the single header \<^verbatim>\<open>Cache-Control: no-store\<close>.
\<close>

theorem upstream_error_response:
  assumes "snd (GET env request) = [call]"
    and "fetch env call = Fetched st txt (JsonBody inventoryData)"
    and "200 \<le> st" and "st \<le> 299"
    and "inv_error inventoryData = Some e" and "e \<noteq> []"
  shows "fst (GET env request) =
           \<lparr> status = 500,
             body = Failure
               \<lparr> f_success = False,
                 f_error = ''Failed to fetch inventory'',
                 f_details = (if isDev env then Some (''Steam API error: '' @ e) else None),
                 f_items = [],
                 f_total_count = 0 \<rparr>,
             headers = [(''Cache-Control'', ''no-store'')] \<rparr>"
proof -
  have k: "classify (fetch env call) = Inl (''Steam API error: '' @ e)"
    using assms(2-6) by (simp add: classify_def)
  from GET_called [OF assms(1)] k
  have "fst (GET env request) = errorResponse env (''Steam API error: '' @ e)" by auto
  then show ?thesis
    by (simp add: errorResponse_def set_header_def json_response_def)
qed

text \<open>
  The scenario of the claim, in development mode and outside it.
\<close>

theorem upstream_error_response_witness:
  "fst (GET (example_env True private_profile) (example_request [])) =
     \<lparr> status = 500,
       body = Failure
         \<lparr> f_success = False,
           f_error = ''Failed to fetch inventory'',
           f_details = Some ''Steam API error: Profile is private'',
           f_items = [],
           f_total_count = 0 \<rparr>,
       headers = [(''Cache-Control'', ''no-store'')] \<rparr> \<and>
   fst (GET (example_env False private_profile) (example_request [])) =
     \<lparr> status = 500,
       body = Failure
         \<lparr> f_success = False,
           f_error = ''Failed to fetch inventory'',
           f_details = None,
           f_items = [],
           f_total_count = 0 \<rparr>,
       headers = [(''Cache-Control'', ''no-store'')] \<rparr>"
proof -
  let ?R = "example_request []"
  let ?d = "(example_page None None) \<lparr> inv_error := Some ''Profile is private'' \<rparr>"
  have c: "snd (GET (example_env dev private_profile) ?R) =
             [fetchCall (example_env dev private_profile) ?R ''42'']" for dev
    by (cases dev) (simp, code_simp, simp, code_simp)
  have f: "fetch (example_env dev private_profile) call = Fetched 200 [] (JsonBody ?d)" for dev call
    by (simp add: example_env_def private_profile_def)
  have e: "inv_error ?d = Some ''Profile is private''" by simp
  have dv: "isDev (example_env True private_profile)" "\<not> isDev (example_env False private_profile)"
    by (simp_all add: example_env_def)
  from upstream_error_response [OF c f _ _ e, of True] upstream_error_response [OF c f _ _ e, of False] dv
  show ?thesis by simp
qed

text \<open>
  Claim C6 as stated fails for an \<^verbatim>\<open>error\<close> field that is the empty string: the handler
  reads the field for its truth value, takes the body for a page and answers with status
  200 and a success envelope.
\<close>

theorem upstream_error_counterexample:
  "fetch (example_env True empty_error)
      (fetchCall (example_env True empty_error) (example_request []) ''42'') =
     Fetched 200 [] (JsonBody empty_error_page) \<and>
   inv_error empty_error_page = Some [] \<and>
   snd (GET (example_env True empty_error) (example_request [])) =
     [fetchCall (example_env True empty_error) (example_request []) ''42''] \<and>
   status (fst (GET (example_env True empty_error) (example_request []))) = 200 \<and>
   map_option s_success (success_of (fst (GET (example_env True empty_error) (example_request [])))) =
     Some True"
  by code_simp

section \<open>Defaults of the page\<close>




section \<open>The start marker\<close>



section \<open>A filter that does not parse\<close>



end
